theory Spec2Isabelle
  imports Main "HOL-Library.Sublist"
begin

section \<open>BibTeX Google Scholar checker: the model\<close>

text \<open>
  A shallow embedding of \<^verbatim>\<open>src/bibtex_scholar_checker.py\<close> (class
  \<^verbatim>\<open>GoogleScholarChecker\<close>).

  Python strings are lists of code points. They are modelled as \<^typ>\<open>string\<close>, whose
  characters are the code points 0 to 255; the character classes below are Python's own
  on that range.
\<close>

subsection \<open>Python string primitives\<close>

text \<open>
  \<^verbatim>\<open>str.isspace\<close>, which is also the class \<^verbatim>\<open>\s\<close> of \<^verbatim>\<open>re\<close> on \<^verbatim>\<open>str\<close> patterns and the
  whitespace of \<^verbatim>\<open>str.split()\<close> and \<^verbatim>\<open>str.strip()\<close>: code points 9 to 13, 28 to 32,
  133 and 160.
\<close>

definition is_space :: "char \<Rightarrow> bool" where
  "is_space c =
     (let n = (of_char c :: nat)
      in (9 \<le> n \<and> n \<le> 13) \<or> (28 \<le> n \<and> n \<le> 32) \<or> n = 133 \<or> n = 160)"

text \<open>\<^verbatim>\<open>str.isalnum\<close> on the code points below 256.\<close>

definition is_alnum :: "char \<Rightarrow> bool" where
  "is_alnum c =
     (let n = (of_char c :: nat)
      in (48 \<le> n \<and> n \<le> 57) \<or> (65 \<le> n \<and> n \<le> 90) \<or> (97 \<le> n \<and> n \<le> 122)
         \<or> n = 170 \<or> n = 178 \<or> n = 179 \<or> n = 181 \<or> n = 185 \<or> n = 186
         \<or> (188 \<le> n \<and> n \<le> 190) \<or> (192 \<le> n \<and> n \<le> 214)
         \<or> (216 \<le> n \<and> n \<le> 246) \<or> (248 \<le> n \<and> n \<le> 255))"

text \<open>The class \<^verbatim>\<open>\w\<close> of \<^verbatim>\<open>re\<close>: an alphanumeric character or the underscore.\<close>

definition is_word :: "char \<Rightarrow> bool" where
  "is_word c = (is_alnum c \<or> c = CHR ''_'')"

text \<open>\<^verbatim>\<open>sep.join(parts)\<close>.\<close>

fun join :: "string \<Rightarrow> string list \<Rightarrow> string" where
  "join sep [] = []"
| "join sep [p] = p"
| "join sep (p # q # ps) = p @ sep @ join sep (q # ps)"

text \<open>
  \<^verbatim>\<open>text.split()\<close>: the maximal runs of non-whitespace characters, in order.
  \<open>split_ws w s\<close> scans \<open>s\<close> with the word \<open>w\<close> read so far.
\<close>

fun split_ws :: "string \<Rightarrow> string \<Rightarrow> string list" where
  "split_ws w [] = (if w = [] then [] else [w])"
| "split_ws w (c # cs) =
     (if is_space c then (if w = [] then split_ws [] cs else w # split_ws [] cs)
      else split_ws (w @ [c]) cs)"

definition py_split_ws :: "string \<Rightarrow> string list" where
  "py_split_ws s = split_ws [] s"

text \<open>\<^verbatim>\<open>text.strip()\<close>: whitespace removed at both ends.\<close>

definition py_strip :: "string \<Rightarrow> string" where
  "py_strip s = rev (dropWhile is_space (rev (dropWhile is_space s)))"

text \<open>
  \<^verbatim>\<open>text.split(sep)\<close> for a separator that is not empty: the pieces between the
  occurrences of \<open>sep\<close>, found from the left without overlap. \<open>split_sep sep w s\<close> scans
  \<open>s\<close> with the piece \<open>w\<close> read so far. (Python raises \<^verbatim>\<open>ValueError\<close> on an empty
  separator; the program only splits on the literals \<^verbatim>\<open>' and '\<close> and \<^verbatim>\<open>','\<close>, and with
  an empty separator the scan below never cuts.)
\<close>

function split_sep :: "string \<Rightarrow> string \<Rightarrow> string \<Rightarrow> string list" where
  "split_sep sep w s =
     (if sep \<noteq> [] \<and> prefix sep s then w # split_sep sep [] (drop (length sep) s)
      else (case s of [] \<Rightarrow> [w] | c # cs \<Rightarrow> split_sep sep (w @ [c]) cs))"
  by pat_completeness auto
termination
  by (relation "measure (\<lambda>(sep, w, s). length s)") (auto simp: prefix_def)

declare split_sep.simps [simp del]

definition py_split :: "string \<Rightarrow> string \<Rightarrow> string list" where
  "py_split sep s = split_sep sep [] s"

text \<open>\<^verbatim>\<open>str(n)\<close> for an integer: its decimal digits, with a minus sign if negative.\<close>

definition digit_char :: "nat \<Rightarrow> char" where
  "digit_char d = char_of (48 + d)"

fun str_nat :: "nat \<Rightarrow> string" where
  "str_nat n = (if n < 10 then [digit_char n] else str_nat (n div 10) @ [digit_char (n mod 10)])"

declare str_nat.simps [simp del]

definition str_int :: "int \<Rightarrow> string" where
  "str_int i = (if i < 0 then CHR ''-'' # str_nat (nat (- i)) else str_nat (nat i))"

subsection \<open>Query construction\<close>

text \<open>
  \<^verbatim>\<open>clean_text\<close> (lines 32 to 39). \<^verbatim>\<open>re.sub(r'[^\w\s]', ' ', text)\<close> replaces every
  character that is neither in \<^verbatim>\<open>\w\<close> nor in \<^verbatim>\<open>\s\<close> by one space.
\<close>

definition re_sub_special :: "string \<Rightarrow> string" where
  "re_sub_special text = map (\<lambda>c. if is_word c \<or> is_space c then c else CHR '' '') text"

definition clean_text :: "string \<Rightarrow> string" where
  "clean_text text =
     (if text = [] then []
      else (let text = re_sub_special text;
                text = join '' '' (py_split_ws text)
            in py_strip text))"

text \<open>A BibTeX entry, as \<^verbatim>\<open>bibtexparser\<close> yields it: a dictionary from field names to strings.\<close>

type_synonym entry = "string \<rightharpoonup> string"

text \<open>
  The last name of the first author (lines 60 to 69 of \<^verbatim>\<open>build_search_query\<close>):
  \<open>first_author\<close> is \<^verbatim>\<open>authors[0].strip()\<close>, \<open>last_name_of\<close> the branch on the comma.
  \<^verbatim>\<open>split\<close> with a separator never returns an empty list, so \<^verbatim>\<open>if authors:\<close> holds.
\<close>

definition last_name_of :: "string \<Rightarrow> string" where
  "last_name_of first_author =
     (let name_parts = py_split '','' first_author
      in if length name_parts > 1 then py_strip (hd name_parts)
         else (let name_parts = py_split_ws first_author
               in if name_parts \<noteq> [] then last name_parts else []))"

definition author_last_name :: "string \<Rightarrow> string option" where
  "author_last_name author =
     (let authors = py_split '' and '' author
      in case authors of
           [] \<Rightarrow> None
         | a # _ \<Rightarrow> (let first_author = py_strip a in Some (last_name_of first_author)))"

text \<open>
  \<^verbatim>\<open>build_search_query\<close> (lines 41 to 78). The three steps that extend \<open>query_parts\<close>
  are the three commented blocks of the source, in its order.
\<close>

definition add_title :: "entry \<Rightarrow> string list \<Rightarrow> string list" where
  "add_title entry query_parts =
     (case entry ''title'' of
        Some t \<Rightarrow> (let title = clean_text t in query_parts @ [''\"'' @ title @ ''\"''])
      | None \<Rightarrow> query_parts)"

definition add_author :: "entry \<Rightarrow> string list \<Rightarrow> string list" where
  "add_author entry query_parts =
     (case entry ''author'' of
        Some a \<Rightarrow>
          (case author_last_name a of
             Some last_name \<Rightarrow>
               if last_name \<noteq> [] then query_parts @ [''author:\"'' @ last_name @ ''\"'']
               else query_parts
           | None \<Rightarrow> query_parts)
      | None \<Rightarrow> query_parts)"

definition add_year :: "entry \<Rightarrow> string list \<Rightarrow> string list" where
  "add_year entry query_parts =
     (case entry ''year'' of
        Some y \<Rightarrow> query_parts @ [y]
      | None \<Rightarrow> query_parts)"

definition build_search_query :: "entry \<Rightarrow> string" where
  "build_search_query entry =
     (let query_parts = [];
          query_parts = add_title entry query_parts;
          query_parts = add_author entry query_parts;
          query_parts = add_year entry query_parts
      in join '' '' query_parts)"

subsection \<open>The outside world\<close>

text \<open>
  What one lookup meets on the network: \<^verbatim>\<open>self.session.get\<close> returns a response with a
  status code and a body, or raises \<^verbatim>\<open>requests.RequestException\<close>, or something else in
  the \<^verbatim>\<open>try\<close> block raises another \<^verbatim>\<open>Exception\<close> before a response is there (the delay,
  the request). The string is \<^verbatim>\<open>str(e)\<close>.
\<close>

datatype 'c fetch =
    Response int 'c
  | RequestException string
  | OtherException string

text \<open>
  The parsed page that \<^verbatim>\<open>BeautifulSoup(response.content, 'html.parser')\<close> hands back: a
  tree of tags and strings, after the library's documentation. Of a tag the model keeps
  the name, the list of its classes (the \<^verbatim>\<open>class\<close> attribute is multi-valued: the parser
  splits it at whitespace) and the children; a \<^verbatim>\<open>NavigableString\<close> is a piece of text. A
  \<open>soup\<close> is the list of the top-level nodes of the page.
\<close>

datatype html =
    NavigableString string
  | Tag string "string list" "html list"

type_synonym soup = "html list"

fun tag_name :: "html \<Rightarrow> string" where
  "tag_name (Tag name classes contents) = name"
| "tag_name (NavigableString s) = []"

fun tag_classes :: "html \<Rightarrow> string list" where
  "tag_classes (Tag name classes contents) = classes"
| "tag_classes (NavigableString s) = []"

text \<open>The text below a node: all its strings, in document order.\<close>

fun get_text :: "html \<Rightarrow> string" where
  "get_text (NavigableString s) = s"
| "get_text (Tag name classes contents) = concat (map get_text contents)"

text \<open>The text of the page: all the strings of the parsed page, in document order.\<close>

definition page_text :: "soup \<Rightarrow> string" where
  "page_text soup = concat (map get_text soup)"

text \<open>The tags at and below a node, in document order, and all the tags of a page.\<close>

fun tags_of :: "html \<Rightarrow> html list" where
  "tags_of (NavigableString s) = []"
| "tags_of (Tag name classes contents) =
     Tag name classes contents # concat (map tags_of contents)"

definition all_tags :: "soup \<Rightarrow> html list" where
  "all_tags soup = concat (map tags_of soup)"

text \<open>
  The attribute \<^verbatim>\<open>.string\<close> of a tag: a tag with exactly one child has the string of
  that child (the child itself if it is a string); any other tag has none.
\<close>

fun tag_string :: "html \<Rightarrow> string option" where
  "tag_string (NavigableString s) = Some s"
| "tag_string (Tag name classes [child]) = tag_string child"
| "tag_string (Tag name classes contents) = None"

text \<open>
  A search value matches the classes of a tag when it is one of them, or when it is the
  whole attribute, the classes joined by single spaces. So \<^verbatim>\<open>gs_ri\<close> matches a tag that
  has this class among others, and \<^verbatim>\<open>gs_r gs_or gs_scl\<close> matches a tag with exactly these
  three classes in this order.
\<close>

definition class_matches :: "string \<Rightarrow> string list \<Rightarrow> bool" where
  "class_matches v classes = (v \<in> set classes \<or> join '' '' classes = v)"

text \<open>\<^verbatim>\<open>soup.find_all('div', {'class': v})\<close> (lines 107 and 108).\<close>

definition find_all_div :: "string \<Rightarrow> soup \<Rightarrow> html list" where
  "find_all_div v soup =
     filter (\<lambda>t. tag_name t = ''div'' \<and> class_matches v (tag_classes t)) (all_tags soup)"

text \<open>
  \<^verbatim>\<open>re.compile(r'did not match any articles', re.I).search(s)\<close> (line 111): the phrase
  occurs in \<open>s\<close>, letters compared without regard to case. On the code points below 256
  a letter of the phrase matches itself and its ASCII capital only.
\<close>

definition ascii_lower :: "char \<Rightarrow> char" where
  "ascii_lower c =
     (let n = (of_char c :: nat) in if 65 \<le> n \<and> n \<le> 90 then char_of (n + 32) else c)"

definition no_results_re :: "string \<Rightarrow> bool" where
  "no_results_re s = sublist ''did not match any articles'' (map ascii_lower s)"

text \<open>
  \<^verbatim>\<open>soup.find('div', string=re)\<close> (line 111): the first \<^verbatim>\<open>div\<close>, in document order, that
  has a \<^verbatim>\<open>.string\<close> which the expression matches.
\<close>

definition find_div_string :: "(string \<Rightarrow> bool) \<Rightarrow> soup \<Rightarrow> html option" where
  "find_div_string re soup =
     find (\<lambda>t. tag_name t = ''div'' \<and> (case tag_string t of Some s \<Rightarrow> re s | None \<Rightarrow> False))
       (all_tags soup)"

text \<open>
  The collaborators of a run. \<open>session_get env k url\<close> is what the \<open>k\<close>-th request of the
  run meets (the network may answer the same URL differently each time);
  \<open>html_parser\<close> is \<^verbatim>\<open>BeautifulSoup\<close> building the tree, the left summand standing for an
  exception raised while the page is parsed or searched; \<open>bibtex_load\<close> opens and parses
  the input file; \<open>file_write\<close> opens the report file and writes the text, and returns
  \<^verbatim>\<open>str(e)\<close> if that raises.
\<close>

record 'c env =
  quote_plus :: "string \<Rightarrow> string"
  session_get :: "nat \<Rightarrow> string \<Rightarrow> 'c fetch"
  html_parser :: "'c \<Rightarrow> string + soup"
  bibtex_load :: "string \<Rightarrow> string + entry list"
  file_write :: "string \<Rightarrow> string \<Rightarrow> string option"

subsection \<open>One lookup\<close>

text \<open>
  \<^verbatim>\<open>search_google_scholar\<close> (lines 80 to 121), as the \<open>k\<close>-th request of the run. The
  result is the tuple \<^verbatim>\<open>(success, num_results, error_msg)\<close>. In Python \<^verbatim>\<open>a or b\<close> on
  two lists is \<open>a\<close> unless \<open>a\<close> is empty, and a tag found is true.
\<close>

definition search_url :: "'c env \<Rightarrow> string \<Rightarrow> string" where
  "search_url env query = ''https://scholar.google.com/scholar?q='' @ quote_plus env query"

definition search_google_scholar :: "'c env \<Rightarrow> nat \<Rightarrow> string \<Rightarrow> bool \<times> int \<times> string" where
  "search_google_scholar env k query =
     (let url = search_url env query
      in case session_get env k url of
           RequestException e \<Rightarrow> (False, 0, ''Network error: '' @ e)
         | OtherException e \<Rightarrow> (False, 0, ''Error: '' @ e)
         | Response status_code content \<Rightarrow>
             if status_code = 429 then (False, 0, ''Rate limited by Google Scholar'')
             else if status_code \<noteq> 200 then (False, 0, ''HTTP '' @ str_int status_code)
             else (case html_parser env content of
                     Inl e \<Rightarrow> (False, 0, ''Error: '' @ e)
                   | Inr soup \<Rightarrow>
                       (let result_divs =
                              (if find_all_div ''gs_r gs_or gs_scl'' soup \<noteq> []
                               then find_all_div ''gs_r gs_or gs_scl'' soup
                               else find_all_div ''gs_ri'' soup);
                            no_results = find_div_string no_results_re soup
                        in if no_results \<noteq> None \<or> length result_divs = 0 then (True, 0, [])
                           else (True, int (length result_divs), []))))"

subsection \<open>The batch run\<close>

text \<open>The dictionary built for each entry (lines 162 to 170).\<close>

record check_result =
  entry_id :: string
  title :: string
  query :: string
  found :: bool
  num_results :: int
  error :: string
  success :: bool

text \<open>
  The dictionary that the body of the loop of \<^verbatim>\<open>check_bibtex_file\<close> builds and appends
  (lines 149, 150, 156 and 160 to 172) for the entry at position \<open>i\<close>, counted from 1.
  What the body prints, and how a \<^verbatim>\<open>print\<close> that raises ends the run, is in \<open>run_entry\<close>
  further down.
\<close>

definition check_entry :: "'c env \<Rightarrow> nat \<Rightarrow> entry \<Rightarrow> check_result" where
  "check_entry env i entry =
     (let entry_id = (case entry ''ID'' of Some v \<Rightarrow> v | None \<Rightarrow> ''entry_'' @ str_nat i);
          title = (case entry ''title'' of Some v \<Rightarrow> v | None \<Rightarrow> ''No title'');
          query = build_search_query entry;
          (success, num_results, error_msg) = search_google_scholar env i query
      in \<lparr>entry_id = entry_id,
          title = title,
          query = query,
          found = (success \<and> num_results > 0),
          num_results = (if success then num_results else 0),
          error = error_msg,
          success = success\<rparr>)"

text \<open>
  The loop \<^verbatim>\<open>for i, entry in enumerate(entries, 1)\<close> (line 148), appending to \<open>results\<close>,
  when no \<^verbatim>\<open>print\<close> raises; \<open>run_entries\<close> further down is the loop with its console.
\<close>

fun check_entries ::
  "'c env \<Rightarrow> nat \<Rightarrow> entry list \<Rightarrow> check_result list \<Rightarrow> check_result list" where
  "check_entries env i [] results = results"
| "check_entries env i (entry # rest) results =
     check_entries env (Suc i) rest (results @ [check_entry env i entry])"

subsection \<open>The report\<close>

definition newline :: char where
  "newline = CHR 0x0A"

text \<open>The text that \<^verbatim>\<open>save_results\<close> writes for one result (lines 199 to 209).\<close>

definition result_block :: "check_result \<Rightarrow> string" where
  "result_block result =
     ''Entry ID: '' @ entry_id result @ [newline]
     @ ''Title: '' @ title result @ [newline]
     @ ''Query: '' @ query result @ [newline]
     @ (if success result then
          (let status = (if found result then ''FOUND'' else ''NOT FOUND'')
           in ''Status: '' @ status @ '' ('' @ str_int (num_results result) @ '' results)'' @ [newline])
        else ''Status: ERROR - '' @ error result @ [newline])
     @ replicate 30 CHR ''-'' @ [newline, newline]"

definition report_text :: "check_result list \<Rightarrow> string" where
  "report_text results =
     (let found_count = length (filter found results);
          total_count = length results
      in ''BibTeX Google Scholar Check Results'' @ [newline]
         @ replicate 50 CHR ''='' @ [newline, newline]
         @ ''Summary: '' @ str_nat found_count @ ''/'' @ str_nat total_count
         @ '' entries found'' @ [newline, newline]
         @ concat (map result_block results))"

text \<open>
  \<^verbatim>\<open>save_results\<close> (lines 186 to 213). Its effect is the text left in the file, if the
  writing went through, and the one line it prints; an exception inside the \<^verbatim>\<open>try\<close>
  block is caught and printed. It returns nothing.
\<close>

record save_effect =
  file_text :: "string option"
  message :: string

definition save_results :: "'c env \<Rightarrow> check_result list \<Rightarrow> string \<Rightarrow> save_effect" where
  "save_results env results output_file =
     (case file_write env output_file (report_text results) of
        None \<Rightarrow>
          \<lparr>file_text = Some (report_text results),
           message = [newline] @ ''Results saved to: '' @ output_file\<rparr>
      | Some e \<Rightarrow> \<lparr>file_text = None, message = ''Error saving results: '' @ e\<rparr>)"

text \<open>
  \<^verbatim>\<open>check_bibtex_file\<close> (lines 123 to 184), when no \<^verbatim>\<open>print\<close> raises. The first
  component is the list the function returns; the second is what \<^verbatim>\<open>save_results\<close> did,
  when it was called. \<^verbatim>\<open>if output_file:\<close> holds for a path that is given and not empty.
\<close>

definition check_bibtex_file ::
  "'c env \<Rightarrow> string \<Rightarrow> string option \<Rightarrow> check_result list \<times> save_effect option" where
  "check_bibtex_file env bibtex_file_path output_file =
     (case bibtex_load env bibtex_file_path of
        Inl e \<Rightarrow> ([], None)
      | Inr entries \<Rightarrow>
          (let results = check_entries env 1 entries []
           in case output_file of
                None \<Rightarrow> (results, None)
              | Some path \<Rightarrow>
                  if path \<noteq> [] then (results, Some (save_results env results path))
                  else (results, None)))"

subsection \<open>The run with its console\<close>








subsection \<open>The summary\<close>

text \<open>
  The floating-point arithmetic of the success rate, \<^verbatim>\<open>f"{found/total*100:.1f}"\<close>, belongs
  to the Python runtime: true division of two integers, multiplication by 100, and the
  format \<^verbatim>\<open>.1f\<close> (a decimal numeral with one digit after the point). True division
  raises \<^verbatim>\<open>ZeroDivisionError\<close> on a zero divisor.
\<close>

record 'f float_ops =
  truediv :: "int \<Rightarrow> int \<Rightarrow> 'f"
  fmul :: "'f \<Rightarrow> int \<Rightarrow> 'f"
  format_1f :: "'f \<Rightarrow> string"

datatype py_error = ZeroDivisionError

definition py_truediv :: "'f float_ops \<Rightarrow> int \<Rightarrow> int \<Rightarrow> py_error + 'f" where
  "py_truediv ops a b = (if b = 0 then Inl ZeroDivisionError else Inr (truediv ops a b))"

text \<open>
  The line about the success rate (line 228). The conditional expression is the
  argument of \<^verbatim>\<open>print\<close>: the f-string is evaluated only when \<^verbatim>\<open>total > 0\<close>.
\<close>

definition success_rate_line :: "'f float_ops \<Rightarrow> int \<Rightarrow> int \<Rightarrow> py_error + string" where
  "success_rate_line ops found' total' =
     (if total' > 0 then
        (case py_truediv ops found' total' of
           Inl e \<Rightarrow> Inl e
         | Inr q \<Rightarrow> Inr (''Success rate: '' @ format_1f ops (fmul ops q 100) @ ''%''))
      else Inr ''N/A'')"

text \<open>
  \<^verbatim>\<open>print_summary\<close> (lines 215 to 234): the arguments of its \<^verbatim>\<open>print\<close> calls, in order,
  or the exception that ends it.
\<close>

definition print_summary :: "'f float_ops \<Rightarrow> check_result list \<Rightarrow> py_error + string list" where
  "print_summary ops results =
     (let total' = int (length results);
          found' = int (length (filter found results));
          errors = int (length (filter (\<lambda>r. \<not> success r) results))
      in case success_rate_line ops found' total' of
           Inl e \<Rightarrow> Inl e
         | Inr rate \<Rightarrow>
             Inr ([[newline] @ replicate 50 CHR ''='',
                   ''SUMMARY'',
                   replicate 50 CHR ''='',
                   ''Total entries checked: '' @ str_int total',
                   ''Found in Google Scholar: '' @ str_int found',
                   ''Not found: '' @ str_int (total' - found' - errors),
                   ''Errors: '' @ str_int errors,
                   rate]
                  @ (if errors > 0 then
                       ([newline] @ ''Entries with errors:'')
                       # map (\<lambda>result. ''  - '' @ entry_id result @ '': '' @ error result)
                           (filter (\<lambda>r. \<not> success r) results)
                     else [])))"

subsection \<open>A sample world\<close>

text \<open>
  Three entries (the second has neither ID nor title) and a network that answers the
  first request with a page of two hits, the second with status 429, the third with a
  page that has a hit and the no-results message, the fourth with a page on which the
  parser raises, the fifth with status 503, and then stops answering. The report file
  cannot be written.
\<close>

definition sample_entries :: "entry list" where
  "sample_entries =
     [[''ID'' \<mapsto> ''vaswani2017'', ''title'' \<mapsto> ''Attention Is All You Need'',
       ''author'' \<mapsto> ''Vaswani, A. and others'', ''year'' \<mapsto> ''2017''],
      [''author'' \<mapsto> ''John Smith'', ''year'' \<mapsto> ''1999''],
      [''ID'' \<mapsto> ''k3'', ''title'' \<mapsto> ''Some_Title'']]"

definition sample_soup :: soup where
  "sample_soup =
     [Tag ''body'' []
        [Tag ''div'' [''gs_ri''] [NavigableString ''First paper''],
         Tag ''div'' [''gs_ri'', ''gs_fl''] [NavigableString ''Second paper'']]]"

definition marked_soup :: soup where
  "marked_soup =
     [Tag ''div'' [''gs_r'', ''gs_or'', ''gs_scl''] [NavigableString ''A paper''],
      Tag ''div'' [] [NavigableString ''Your search did NOT match any articles.'']]"

definition sample_env :: "nat env" where
  "sample_env =
     \<lparr>quote_plus = (\<lambda>q. q),
      session_get = (\<lambda>k url.
        if k = 1 then Response 200 0
        else if k = 2 then Response 429 0
        else if k = 3 then Response 200 1
        else if k = 4 then Response 200 2
        else if k = 5 then Response 503 0
        else RequestException ''timed out''),
      html_parser = (\<lambda>c.
        if c = 0 then Inr sample_soup
        else if c = 1 then Inr marked_soup
        else Inl ''bad markup''),
      bibtex_load = (\<lambda>p. Inr sample_entries),
      file_write = (\<lambda>p t. Some ''Permission denied'')\<rparr>"

text \<open>The same world with no network at all: every request raises.\<close>

definition offline_env :: "nat env" where
  "offline_env = sample_env\<lparr>session_get := (\<lambda>k url. RequestException ''no route to host'')\<rparr>"

text \<open>
  A page with one hit on which the no-results phrase stands in a \<^verbatim>\<open>div\<close> that has several
  children, and a world whose every request is answered with that page.
\<close>

definition mixed_soup :: soup where
  "mixed_soup =
     [Tag ''div'' [''gs_r'', ''gs_or'', ''gs_scl''] [NavigableString ''A paper''],
      Tag ''div'' [''gs_med'']
        [NavigableString ''Your search - '',
         Tag ''b'' [] [NavigableString ''q''],
         NavigableString '' - did not match any articles.'']]"

definition mixed_env :: "nat env" where
  "mixed_env =
     sample_env\<lparr>session_get := (\<lambda>k url. Response 200 0), html_parser := (\<lambda>c. Inr mixed_soup)\<rparr>"




text \<open>
  A runtime that writes the floating-point expression down instead of computing it, to
  run the summary on.
\<close>

definition symbolic_ops :: "string float_ops" where
  "symbolic_ops =
     \<lparr>truediv = (\<lambda>a b. str_int a @ ''/'' @ str_int b),
      fmul = (\<lambda>x n. x @ ''*'' @ str_int n),
      format_1f = (\<lambda>x. ''{'' @ x @ '':.1f}'')\<rparr>"

subsection \<open>The normalisation of text, as the specification words it\<close>

text \<open>
  Runs of whitespace collapsed to single spaces: a whitespace character followed by
  another one disappears, the last one of a run becomes a space.
\<close>

fun collapse_ws :: "string \<Rightarrow> string" where
  "collapse_ws [] = []"
| "collapse_ws [c] = [if is_space c then CHR '' '' else c]"
| "collapse_ws (c # d # cs) =
     (if is_space c then
        (if is_space d then collapse_ws (d # cs) else CHR '' '' # collapse_ws (d # cs))
      else c # collapse_ws (d # cs))"

text \<open>
  The specification's normalisation: the characters that are not alphanumeric or
  whitespace are removed, runs of whitespace are collapsed, both ends are trimmed. It
  follows the words of the specification, not the source, and is compared with
  \<open>clean_text\<close> below.
\<close>

definition spec_normalize :: "string \<Rightarrow> string" where
  "spec_normalize text =
     py_strip (collapse_ws (filter (\<lambda>c. is_alnum c \<or> is_space c) text))"

text \<open>Whitespace removed at the right end: the outer half of \<open>py_strip\<close>.\<close>

abbreviation trimR :: "string \<Rightarrow> string" where
  "trimR t \<equiv> rev (dropWhile is_space (rev t))"

section \<open>Properties\<close>

subsection \<open>The example query\<close>

lemma clean_text_attention:
  "clean_text ''Attention Is All You Need'' = ''Attention Is All You Need''"
  by code_simp

lemma author_last_name_vaswani:
  "author_last_name ''Vaswani, A. and others'' = Some ''Vaswani''"
  by code_simp

text \<open>
  Claim C5. An entry whose title is \<^verbatim>\<open>Attention Is All You Need\<close>, whose author is
  \<^verbatim>\<open>Vaswani, A. and others\<close> and whose year is \<^verbatim>\<open>2017\<close> gives exactly the query
  \<^verbatim>\<open>"Attention Is All You Need" author:"Vaswani" 2017\<close>: the quoted cleaned title, the
  last name of the first author, the raw year, joined by single spaces. The other fields
  of the entry (its ID, its type) play no role.
\<close>

theorem build_search_query_attention:
  assumes "entry ''title'' = Some ''Attention Is All You Need''"
    and "entry ''author'' = Some ''Vaswani, A. and others''"
    and "entry ''year'' = Some ''2017''"
  shows "build_search_query entry = ''\"Attention Is All You Need\" author:\"Vaswani\" 2017''"
  using assms
  by (simp add: build_search_query_def add_title_def add_author_def add_year_def
      clean_text_attention author_last_name_vaswani)

theorem build_search_query_attention_witness:
  "build_search_query
     [''title'' \<mapsto> ''Attention Is All You Need'',
      ''author'' \<mapsto> ''Vaswani, A. and others'',
      ''year'' \<mapsto> ''2017'']
   = ''\"Attention Is All You Need\" author:\"Vaswani\" 2017''"
  by (rule build_search_query_attention) simp_all

subsection \<open>The loop of the batch run\<close>

lemma check_entries_append:
  "check_entries env i entries acc = acc @ check_entries env i entries []"
proof (induction entries arbitrary: i acc)
  case Nil
  show ?case by simp
next
  case (Cons e es)
  have "check_entries env i (e # es) acc
      = check_entries env (Suc i) es (acc @ [check_entry env i e])"
    by simp
  also have "\<dots> = (acc @ [check_entry env i e]) @ check_entries env (Suc i) es []"
    by (rule Cons.IH)
  also have "\<dots> = acc @ check_entries env (Suc i) es [check_entry env i e]"
    using Cons.IH [of "Suc i" "[check_entry env i e]"] by simp
  finally show ?case by simp
qed

lemma check_entries_Cons:
  "check_entries env i (e # es) [] = check_entry env i e # check_entries env (Suc i) es []"
  using check_entries_append [of env "Suc i" es "[check_entry env i e]"] by simp

lemma length_check_entries:
  "length (check_entries env i entries []) = length entries"
  by (induction entries arbitrary: i)
     (simp_all add: check_entries_Cons del: check_entries.simps(2))

lemma nth_check_entries:
  "k < length entries \<Longrightarrow>
   check_entries env i entries [] ! k = check_entry env (i + k) (entries ! k)"
proof (induction entries arbitrary: i k)
  case Nil
  then show ?case by simp
next
  case (Cons e es)
  show ?case
  proof (cases k)
    case 0
    then show ?thesis by (simp add: check_entries_Cons del: check_entries.simps(2))
  next
    case (Suc j)
    with Cons.prems have "j < length es" by simp
    from Cons.IH [OF this, of "Suc i"] Suc show ?thesis
      by (simp add: check_entries_Cons del: check_entries.simps(2))
  qed
qed

lemma set_check_entries:
  "r \<in> set (check_entries env i entries []) \<Longrightarrow> \<exists>k e. r = check_entry env k e"
  by (induction entries arbitrary: i)
     (auto simp add: check_entries_Cons simp del: check_entries.simps(2))

lemma fst_check_bibtex_file:
  "bibtex_load env path = Inr entries \<Longrightarrow>
   fst (check_bibtex_file env path output_file) = check_entries env 1 entries []"
  by (simp add: check_bibtex_file_def Let_def split: option.splits)

lemma fst_check_bibtex_file_cases:
  "fst (check_bibtex_file env path output_file) = [] \<or>
   (\<exists>entries. fst (check_bibtex_file env path output_file) = check_entries env 1 entries [])"
proof (cases "bibtex_load env path")
  case (Inl e)
  then show ?thesis by (simp add: check_bibtex_file_def)
next
  case (Inr entries)
  from fst_check_bibtex_file [OF this] show ?thesis by blast
qed

lemma sample_load:
  "bibtex_load sample_env p = Inr sample_entries"
  "bibtex_load offline_env p = Inr sample_entries"
  by (simp_all add: sample_env_def offline_env_def)

lemma length_sample_entries: "length sample_entries = 3"
  by (simp add: sample_entries_def)













lemma check_entry_invariant:
  "(found (check_entry env i e) \<longleftrightarrow>
      success (check_entry env i e) \<and> num_results (check_entry env i e) > 0)
   \<and> (\<not> success (check_entry env i e) \<longrightarrow>
      num_results (check_entry env i e) = 0 \<and> \<not> found (check_entry env i e))"
  by (simp add: check_entry_def Let_def split: prod.splits)

text \<open>
  Claim C2. In every result of a run, \<open>found\<close> holds exactly when \<open>success\<close> holds and
  \<open>num_results\<close> is positive; and a result without \<open>success\<close> has \<open>num_results = 0\<close> and
  is not \<open>found\<close>.
\<close>

theorem check_result_found_iff:
  "\<forall>r \<in> set (fst (check_bibtex_file env path output_file)).
     (found r \<longleftrightarrow> success r \<and> num_results r > 0)
     \<and> (\<not> success r \<longrightarrow> num_results r = 0 \<and> \<not> found r)"
proof
  fix r assume r: "r \<in> set (fst (check_bibtex_file env path output_file))"
  with fst_check_bibtex_file_cases [of env path output_file]
  obtain entries where "r \<in> set (check_entries env 1 entries [])" by auto
  then obtain k e where "r = check_entry env k e" using set_check_entries by blast
  then show "(found r \<longleftrightarrow> success r \<and> num_results r > 0)
     \<and> (\<not> success r \<longrightarrow> num_results r = 0 \<and> \<not> found r)"
    using check_entry_invariant [of env k e] by simp
qed

lemma sample_run_first:
  "success (fst (check_bibtex_file sample_env ''refs.bib'' None) ! 0)"
  "0 < num_results (fst (check_bibtex_file sample_env ''refs.bib'' None) ! 0)"
  by code_simp+

lemma sample_run_second:
  "\<not> success (fst (check_bibtex_file sample_env ''refs.bib'' None) ! 1)"
  by code_simp

lemma length_sample_run:
  "length (fst (check_bibtex_file sample_env ''refs.bib'' None)) = 3"
  by (simp add: fst_check_bibtex_file [OF sample_load(1)] length_check_entries
      length_sample_entries)

theorem check_result_found_iff_witness:
  "fst (check_bibtex_file sample_env ''refs.bib'' None) ! 0
     \<in> set (fst (check_bibtex_file sample_env ''refs.bib'' None))
   \<and> found (fst (check_bibtex_file sample_env ''refs.bib'' None) ! 0)
   \<and> fst (check_bibtex_file sample_env ''refs.bib'' None) ! 1
     \<in> set (fst (check_bibtex_file sample_env ''refs.bib'' None))
   \<and> num_results (fst (check_bibtex_file sample_env ''refs.bib'' None) ! 1) = 0
   \<and> \<not> found (fst (check_bibtex_file sample_env ''refs.bib'' None) ! 1)"
proof -
  let ?rs = "fst (check_bibtex_file sample_env ''refs.bib'' None)"
  have m0: "?rs ! 0 \<in> set ?rs" and m1: "?rs ! 1 \<in> set ?rs"
    by (simp_all add: length_sample_run)
  from check_result_found_iff [of sample_env "''refs.bib''" None] m0 m1
  have "found (?rs ! 0) \<longleftrightarrow> success (?rs ! 0) \<and> num_results (?rs ! 0) > 0"
    and "\<not> success (?rs ! 1) \<longrightarrow> num_results (?rs ! 1) = 0 \<and> \<not> found (?rs ! 1)"
    by blast+
  with sample_run_first sample_run_second m0 m1 show ?thesis by blast
qed

lemma build_search_query_no_title:
  "entry ''title'' = None \<Longrightarrow>
   build_search_query entry = join '' '' (add_year entry (add_author entry []))"
  by (simp add: build_search_query_def add_title_def)

text \<open>
  Claim C10. For an entry without an \<^verbatim>\<open>ID\<close> field the result carries the identifier
  \<^verbatim>\<open>entry_<i>\<close>, \<open>i\<close> being the position of the entry counted from 1, in decimal. For an
  entry without a \<^verbatim>\<open>title\<close> field the result carries the title \<^verbatim>\<open>No title\<close>, and its query
  is made of the author and year parts alone.
\<close>

theorem check_result_placeholders:
  assumes "bibtex_load env path = Inr entries" and "k < length entries"
  shows "((entries ! k) ''ID'' = None \<longrightarrow>
            entry_id (fst (check_bibtex_file env path output_file) ! k)
            = ''entry_'' @ str_nat (Suc k))
    \<and> ((entries ! k) ''title'' = None \<longrightarrow>
            title (fst (check_bibtex_file env path output_file) ! k) = ''No title''
          \<and> query (fst (check_bibtex_file env path output_file) ! k)
              = join '' '' (add_year (entries ! k) (add_author (entries ! k) [])))"
  using assms
  by (simp add: fst_check_bibtex_file nth_check_entries check_entry_def Let_def
      build_search_query_no_title split: prod.splits)

lemma sample_second_entry:
  "(sample_entries ! 1) ''ID'' = None"
  "(sample_entries ! 1) ''title'' = None"
  "join '' '' (add_year (sample_entries ! 1) (add_author (sample_entries ! 1) []))
   = ''author:\"Smith\" 1999''"
  "''entry_'' @ str_nat (Suc 1) = ''entry_2''"
  by code_simp+

theorem check_result_placeholders_witness:
  "bibtex_load sample_env ''refs.bib'' = Inr sample_entries
   \<and> (1::nat) < length sample_entries
   \<and> (sample_entries ! 1) ''ID'' = None
   \<and> (sample_entries ! 1) ''title'' = None
   \<and> entry_id (fst (check_bibtex_file sample_env ''refs.bib'' None) ! 1) = ''entry_2''
   \<and> title (fst (check_bibtex_file sample_env ''refs.bib'' None) ! 1) = ''No title''
   \<and> query (fst (check_bibtex_file sample_env ''refs.bib'' None) ! 1)
       = ''author:\"Smith\" 1999''"
proof -
  have load: "bibtex_load sample_env ''refs.bib'' = Inr sample_entries"
    by (rule sample_load)
  have k: "(1::nat) < length sample_entries"
    by (simp add: length_sample_entries)
  from check_result_placeholders [OF load k, of None] sample_second_entry load k
  show ?thesis by simp
qed

subsection \<open>One lookup: the failures\<close>

text \<open>
  Claim C4. A lookup that does not get a response with status 200 gives
  \<open>success = False\<close> and \<open>num_results = 0\<close>. With status 429 the message is
  \<^verbatim>\<open>Rate limited by Google Scholar\<close>, which contains \<^verbatim>\<open>Rate limited\<close>; with any other
  status but 200 it is \<^verbatim>\<open>HTTP\<close> followed by the code in decimal; when the request raises
  \<^verbatim>\<open>requests.RequestException\<close> it is \<^verbatim>\<open>Network error:\<close> followed by the text of the
  exception.
\<close>

theorem search_google_scholar_failures:
  "((\<forall>content. session_get env k (search_url env q) \<noteq> Response 200 content)
      \<longrightarrow> fst (search_google_scholar env k q) = False
        \<and> fst (snd (search_google_scholar env k q)) = 0)
   \<and> (session_get env k (search_url env q) = Response 429 content
      \<longrightarrow> search_google_scholar env k q = (False, 0, ''Rate limited by Google Scholar'')
        \<and> sublist ''Rate limited'' (snd (snd (search_google_scholar env k q))))
   \<and> (session_get env k (search_url env q) = Response code content
        \<and> code \<noteq> 429 \<and> code \<noteq> 200
      \<longrightarrow> search_google_scholar env k q = (False, 0, ''HTTP '' @ str_int code))
   \<and> (session_get env k (search_url env q) = RequestException detail
      \<longrightarrow> search_google_scholar env k q = (False, 0, ''Network error: '' @ detail))"
proof -
  have "sublist ''Rate limited'' ''Rate limited by Google Scholar''"
    by (rule prefix_imp_sublist) simp
  then show ?thesis
    by (auto simp add: search_google_scholar_def Let_def split: fetch.splits sum.splits)
qed

lemma str_int_503: "str_int 503 = ''503''"
  by code_simp

theorem search_google_scholar_failures_witness:
  "session_get sample_env 2 (search_url sample_env ''q'') = Response 429 0
   \<and> search_google_scholar sample_env 2 ''q'' = (False, 0, ''Rate limited by Google Scholar'')
   \<and> session_get sample_env 5 (search_url sample_env ''q'') = Response 503 0
   \<and> search_google_scholar sample_env 5 ''q'' = (False, 0, ''HTTP 503'')
   \<and> session_get sample_env 6 (search_url sample_env ''q'') = RequestException ''timed out''
   \<and> search_google_scholar sample_env 6 ''q'' = (False, 0, ''Network error: timed out'')"
proof -
  have a: "session_get sample_env 2 (search_url sample_env ''q'') = Response 429 0"
    and b: "session_get sample_env 5 (search_url sample_env ''q'') = Response 503 0"
    and c: "session_get sample_env 6 (search_url sample_env ''q'') = RequestException ''timed out''"
    by (simp_all add: sample_env_def)
  from search_google_scholar_failures [of sample_env 2 "''q''" 0 503 "''x''"] a
  have 1: "search_google_scholar sample_env 2 ''q'' = (False, 0, ''Rate limited by Google Scholar'')"
    by simp
  from search_google_scholar_failures [of sample_env 5 "''q''" 0 503 "''x''"] b
  have 2: "search_google_scholar sample_env 5 ''q'' = (False, 0, ''HTTP 503'')"
    by (simp add: str_int_503)
  from search_google_scholar_failures [of sample_env 6 "''q''" 0 503 "''timed out''"] c
  have 3: "search_google_scholar sample_env 6 ''q'' = (False, 0, ''Network error: timed out'')"
    by simp
  from a b c 1 2 3 show ?thesis by simp
qed

subsection \<open>One lookup: status 200\<close>

lemma tag_string_get_text: "tag_string t = Some s \<Longrightarrow> get_text t = s"
  by (induction t arbitrary: s rule: tag_string.induct) simp_all

lemma sublist_concat_member: "x \<in> set xs \<Longrightarrow> sublist (f x) (concat (map f xs))"
  by (auto dest!: split_list)

lemma sublist_chain: "sublist a b \<Longrightarrow> sublist b c \<Longrightarrow> sublist a c"
  unfolding sublist_def by (metis append.assoc)

lemma tags_of_text: "t \<in> set (tags_of n) \<Longrightarrow> sublist (get_text t) (get_text n)"
proof (induction n)
  case (NavigableString s)
  then show ?case by simp
next
  case (Tag name classes contents)
  from Tag.prems consider "t = Tag name classes contents"
    | c where "c \<in> set contents" "t \<in> set (tags_of c)"
    by auto
  then show ?case
  proof cases
    case 1
    then show ?thesis by simp
  next
    case 2
    from Tag.IH [OF 2] have "sublist (get_text t) (get_text c)" .
    moreover have "sublist (get_text c) (concat (map get_text contents))"
      using 2(1) by (rule sublist_concat_member)
    ultimately show ?thesis
      by (auto intro: sublist_chain)
  qed
qed

lemma all_tags_text: "t \<in> set (all_tags soup) \<Longrightarrow> sublist (get_text t) (page_text soup)"
proof -
  assume "t \<in> set (all_tags soup)"
  then obtain n where n: "n \<in> set soup" "t \<in> set (tags_of n)"
    by (auto simp: all_tags_def)
  from n(2) have "sublist (get_text t) (get_text n)" by (rule tags_of_text)
  moreover from n(1) have "sublist (get_text n) (page_text soup)"
    unfolding page_text_def by (rule sublist_concat_member)
  ultimately show ?thesis by (auto intro: sublist_chain)
qed

lemma no_results_re_mono: "no_results_re s \<Longrightarrow> sublist s text \<Longrightarrow> no_results_re text"
  unfolding no_results_re_def
  by (meson map_mono_sublist sublist_chain)

lemma find_div_string_None:
  assumes "\<not> no_results_re (page_text soup)"
  shows "find_div_string no_results_re soup = None"
proof -
  have "\<not> (case tag_string t of Some s \<Rightarrow> no_results_re s | None \<Rightarrow> False)"
    if "t \<in> set (all_tags soup)" for t
  proof (cases "tag_string t")
    case None
    then show ?thesis by simp
  next
    case (Some s)
    with that have "sublist s (page_text soup)"
      using all_tags_text tag_string_get_text by fastforce
    with assms no_results_re_mono have "\<not> no_results_re s" by blast
    with Some show ?thesis by simp
  qed
  then show ?thesis
    by (auto simp: find_div_string_def find_None_iff)
qed

lemma find_div_string_Some:
  assumes "d \<in> set (all_tags soup)" "tag_name d = ''div''" "tag_string d = Some s" "no_results_re s"
  shows "find_div_string no_results_re soup \<noteq> None"
  using assms by (auto simp: find_div_string_def find_None_iff)

text \<open>
  Claim C3, as stated, fails in two ways. The third request of the sample world is
  answered with status 200 and a page on which one result block is found (so \<open>K = 1\<close>)
  and the no-results phrase appears, in capitals, as the string of a \<^verbatim>\<open>div\<close>: the result
  count is 0, not \<open>K\<close>. The fourth is answered with status 200 and a page on which the
  parser raises: the lookup is no success, and its message is not empty.
\<close>

theorem search_google_scholar_marker_counterexample:
  "session_get sample_env 3 (search_url sample_env ''q'') = Response 200 1
   \<and> html_parser sample_env 1 = Inr marked_soup
   \<and> length (find_all_div ''gs_r gs_or gs_scl'' marked_soup) = 1
   \<and> no_results_re (page_text marked_soup)
   \<and> search_google_scholar sample_env 3 ''q'' = (True, 0, [])
   \<and> session_get sample_env 4 (search_url sample_env ''q'') = Response 200 2
   \<and> search_google_scholar sample_env 4 ''q'' = (False, 0, ''Error: bad markup'')"
  by code_simp

text \<open>
  Claim C3, amended. For a response with status 200: if the parsing of the page
  raises, the result is no success, count 0 and the message \<^verbatim>\<open>Error:\<close> followed by the
  text of the exception. Otherwise the result is a success with an empty message; the
  result blocks are the \<^verbatim>\<open>div\<close> elements of the first class if there are any, else those
  of the second class; the count is the number of blocks whenever the no-results phrase
  appears nowhere in the text of the page, compared without regard to case; and the count
  is 0 whenever there is no block or the phrase appears in the string of a \<^verbatim>\<open>div\<close>. Nothing
  is said of a page with blocks where the phrase appears elsewhere in the text.
\<close>

theorem search_google_scholar_status_200:
  assumes "session_get env k (search_url env q) = Response 200 content"
  shows "(html_parser env content = Inl detail \<longrightarrow>
            search_google_scholar env k q = (False, 0, ''Error: '' @ detail))
    \<and> (html_parser env content = Inr soup \<longrightarrow>
          (let blocks = (if find_all_div ''gs_r gs_or gs_scl'' soup \<noteq> []
                         then find_all_div ''gs_r gs_or gs_scl'' soup
                         else find_all_div ''gs_ri'' soup)
           in fst (search_google_scholar env k q) = True
              \<and> snd (snd (search_google_scholar env k q)) = []
              \<and> (\<not> no_results_re (page_text soup) \<longrightarrow>
                    fst (snd (search_google_scholar env k q)) = int (length blocks))
              \<and> (blocks = []
                  \<or> (\<exists>d \<in> set (all_tags soup). tag_name d = ''div''
                        \<and> (\<exists>s. tag_string d = Some s \<and> no_results_re s))
                  \<longrightarrow> fst (snd (search_google_scholar env k q)) = 0)))"
proof -
  have 1: "html_parser env content = Inl detail \<longrightarrow>
            search_google_scholar env k q = (False, 0, ''Error: '' @ detail)"
    using assms by (simp add: search_google_scholar_def)
  have 2: "fst (search_google_scholar env k q) = True
        \<and> snd (snd (search_google_scholar env k q)) = []"
    if "html_parser env content = Inr soup"
    using assms that by (simp add: search_google_scholar_def Let_def)
  have 3: "fst (snd (search_google_scholar env k q)) =
             int (length (if find_all_div ''gs_r gs_or gs_scl'' soup \<noteq> []
                         then find_all_div ''gs_r gs_or gs_scl'' soup
                         else find_all_div ''gs_ri'' soup))"
    if "html_parser env content = Inr soup" "\<not> no_results_re (page_text soup)"
    using assms that find_div_string_None [OF that(2)]
    by (simp add: search_google_scholar_def Let_def)
  have 4: "fst (snd (search_google_scholar env k q)) = 0"
    if "html_parser env content = Inr soup"
      "(if find_all_div ''gs_r gs_or gs_scl'' soup \<noteq> []
                         then find_all_div ''gs_r gs_or gs_scl'' soup
                         else find_all_div ''gs_ri'' soup) = []
       \<or> (\<exists>d \<in> set (all_tags soup). tag_name d = ''div''
                        \<and> (\<exists>s. tag_string d = Some s \<and> no_results_re s))"
  proof -
    from that(2) have "find_div_string no_results_re soup \<noteq> None
      \<or> (if find_all_div ''gs_r gs_or gs_scl'' soup \<noteq> []
                         then find_all_div ''gs_r gs_or gs_scl'' soup
                         else find_all_div ''gs_ri'' soup) = []"
      using find_div_string_Some by blast
    with assms that(1) show ?thesis
      by (auto simp add: search_google_scholar_def Let_def)
  qed
  from 1 2 3 4 show ?thesis unfolding Let_def by blast
qed

lemma sample_pages:
  "session_get sample_env 1 (search_url sample_env ''q'') = Response 200 0"
  "html_parser sample_env 0 = Inr sample_soup"
  "find_all_div ''gs_r gs_or gs_scl'' sample_soup = []"
  "length (find_all_div ''gs_ri'' sample_soup) = 2"
  "\<not> no_results_re (page_text sample_soup)"
  "session_get sample_env 3 (search_url sample_env ''q'') = Response 200 1"
  "html_parser sample_env 1 = Inr marked_soup"
  "Tag ''div'' [] [NavigableString ''Your search did NOT match any articles.'']
     \<in> set (all_tags marked_soup)"
  "tag_string (Tag ''div'' [] [NavigableString ''Your search did NOT match any articles.''])
     = Some ''Your search did NOT match any articles.''"
  "no_results_re ''Your search did NOT match any articles.''"
  "session_get sample_env 4 (search_url sample_env ''q'') = Response 200 2"
  "html_parser sample_env 2 = Inl ''bad markup''"
  by code_simp+

theorem search_google_scholar_status_200_witness:
  "session_get sample_env 1 (search_url sample_env ''q'') = Response 200 0
   \<and> html_parser sample_env 0 = Inr sample_soup
   \<and> find_all_div ''gs_r gs_or gs_scl'' sample_soup = []
   \<and> length (find_all_div ''gs_ri'' sample_soup) = 2
   \<and> \<not> no_results_re (page_text sample_soup)
   \<and> search_google_scholar sample_env 1 ''q'' = (True, 2, [])
   \<and> session_get sample_env 3 (search_url sample_env ''q'') = Response 200 1
   \<and> html_parser sample_env 1 = Inr marked_soup
   \<and> Tag ''div'' [] [NavigableString ''Your search did NOT match any articles.'']
        \<in> set (all_tags marked_soup)
   \<and> no_results_re ''Your search did NOT match any articles.''
   \<and> fst (snd (search_google_scholar sample_env 3 ''q'')) = 0
   \<and> session_get sample_env 4 (search_url sample_env ''q'') = Response 200 2
   \<and> html_parser sample_env 2 = Inl ''bad markup''
   \<and> search_google_scholar sample_env 4 ''q'' = (False, 0, ''Error: bad markup'')"
proof -
  note f = sample_pages
  from search_google_scholar_status_200 [OF f(1), of "''x''" sample_soup] f(2-5)
  have "fst (search_google_scholar sample_env 1 ''q'') = True
    \<and> snd (snd (search_google_scholar sample_env 1 ''q'')) = []
    \<and> fst (snd (search_google_scholar sample_env 1 ''q'')) = 2"
    by (simp add: Let_def)
  then have 1: "search_google_scholar sample_env 1 ''q'' = (True, 2, [])"
    by (cases "search_google_scholar sample_env 1 ''q''") simp
  have "\<exists>d \<in> set (all_tags marked_soup). tag_name d = ''div''
          \<and> (\<exists>s. tag_string d = Some s \<and> no_results_re s)"
    using f(8-10) by (intro bexI [OF _ f(8)]) simp
  with search_google_scholar_status_200 [OF f(6), of "''x''" marked_soup] f(7)
  have 2: "fst (snd (search_google_scholar sample_env 3 ''q'')) = 0"
    by (simp add: Let_def)
  from search_google_scholar_status_200 [OF f(11), of "''bad markup''" sample_soup] f(12)
  have 3: "search_google_scholar sample_env 4 ''q'' = (False, 0, ''Error: bad markup'')"
    by simp
  from f 1 2 3 show ?thesis by simp
qed

text \<open>
  A remark, outside the amended claim: on the page \<open>mixed_soup\<close> the phrase is in the
  text of the page, but in a \<^verbatim>\<open>div\<close> that has several children and therefore no string,
  so line 111 finds nothing and the count is the number of blocks.
\<close>

lemma mixed_page_evaluation:
  "no_results_re (page_text mixed_soup)
   \<and> find_div_string no_results_re mixed_soup = None
   \<and> length (find_all_div ''gs_r gs_or gs_scl'' mixed_soup) = 1
   \<and> search_google_scholar mixed_env 1 ''q'' = (True, 1, [])"
  by code_simp

subsection \<open>The report file\<close>








subsection \<open>The summary\<close>

text \<open>
  Claim C8. \<^verbatim>\<open>print_summary\<close> never ends in an exception, whatever the results are. Its
  lines give the total, the number of results found, the number not found, which is the
  total minus the number found minus the number of errors, and the number of errors. The
  last of these lines is \<^verbatim>\<open>N/A\<close> when there is no result; otherwise it is
  \<^verbatim>\<open>Success rate:\<close>, then \<^verbatim>\<open>found/total*100\<close> in the format \<^verbatim>\<open>.1f\<close> of the runtime (one
  digit after the point), then the percent sign.
\<close>

theorem print_summary_report:
  "(\<exists>lines. print_summary ops results = Inr lines)
   \<and> projr (print_summary ops results) ! 3
       = ''Total entries checked: '' @ str_int (int (length results))
   \<and> projr (print_summary ops results) ! 4
       = ''Found in Google Scholar: '' @ str_int (int (length (filter found results)))
   \<and> projr (print_summary ops results) ! 5
       = ''Not found: '' @ str_int (int (length results) - int (length (filter found results))
            - int (length (filter (\<lambda>r. \<not> success r) results)))
   \<and> projr (print_summary ops results) ! 6
       = ''Errors: '' @ str_int (int (length (filter (\<lambda>r. \<not> success r) results)))
   \<and> projr (print_summary ops results) ! 7
       = (if results = [] then ''N/A''
          else ''Success rate: ''
            @ format_1f ops (fmul ops (truediv ops (int (length (filter found results))) (int (length results))) 100)
            @ ''%'')"
  by (cases results) (simp_all add: print_summary_def success_rate_line_def py_truediv_def Let_def)

lemma sample_run_counts:
  "length (filter found (fst (check_bibtex_file sample_env ''refs.bib'' None))) = 1"
  "length (filter (\<lambda>r. \<not> success r) (fst (check_bibtex_file sample_env ''refs.bib'' None))) = 1"
  by code_simp+

lemma symbolic_rate:
  "format_1f symbolic_ops (fmul symbolic_ops (truediv symbolic_ops 1 3) 100) = ''{1/3*100:.1f}''"
  "str_int 1 = ''1''"
  "str_int 3 = ''3''"
  by code_simp+

theorem print_summary_report_witness:
  "projr (print_summary symbolic_ops []) ! 7 = ''N/A''
   \<and> projr (print_summary symbolic_ops (fst (check_bibtex_file sample_env ''refs.bib'' None))) ! 5
       = ''Not found: 1''
   \<and> projr (print_summary symbolic_ops (fst (check_bibtex_file sample_env ''refs.bib'' None))) ! 7
       = ''Success rate: {1/3*100:.1f}%''"
proof -
  let ?rs = "fst (check_bibtex_file sample_env ''refs.bib'' None)"
  have ne: "?rs \<noteq> []"
    using length_sample_run by auto
  from print_summary_report [of symbolic_ops "[]"]
  have 1: "projr (print_summary symbolic_ops []) ! 7 = ''N/A''"
    by simp
  from print_summary_report [of symbolic_ops ?rs] ne
  have 2: "projr (print_summary symbolic_ops ?rs) ! 5 = ''Not found: 1''"
    and 3: "projr (print_summary symbolic_ops ?rs) ! 7 = ''Success rate: {1/3*100:.1f}%''"
    by (simp_all add: sample_run_counts length_sample_run symbolic_rate)
  from 1 2 3 show ?thesis by simp
qed

subsection \<open>The last name of the first author\<close>

lemma split_sep_Nil: "sep \<noteq> [] \<Longrightarrow> split_sep sep w [] = [w]"
  by (subst split_sep.simps) simp

lemma split_sep_prefix:
  "sep \<noteq> [] \<Longrightarrow> split_sep sep w (sep @ rest) = w # split_sep sep [] rest"
  by (subst split_sep.simps) simp

lemma split_sep_step:
  "\<not> prefix sep (c # cs) \<Longrightarrow> split_sep sep w (c # cs) = split_sep sep (w @ [c]) cs"
  by (subst split_sep.simps) simp

lemma split_sep_no_occurrence:
  "sep \<noteq> [] \<Longrightarrow> \<not> sublist sep s \<Longrightarrow> split_sep sep w s = [w @ s]"
proof (induction s arbitrary: w)
  case Nil
  then show ?case by (simp add: split_sep_Nil)
next
  case (Cons c cs)
  from Cons.prems(2) have np: "\<not> prefix sep (c # cs)" and ns: "\<not> sublist sep cs"
    by (auto simp: sublist_Cons_right)
  from Cons.IH [OF Cons.prems(1) ns, of "w @ [c]"] np show ?case
    by (simp add: split_sep_step)
qed

lemma prefix_within:
  assumes "prefix sep ((c # a) @ sep @ rest)"
  shows "sublist sep ((c # a) @ butlast sep)"
proof (cases "sep = []")
  case True
  then show ?thesis by simp
next
  case False
  have len: "length sep \<le> length ((c # a) @ butlast sep)"
    using False by (cases sep rule: rev_cases) simp_all
  have "prefix (butlast sep) (sep @ rest)"
    by (rule prefix_prefix) (rule prefixeq_butlast)
  then have "prefix ((c # a) @ butlast sep) ((c # a) @ sep @ rest)"
    by simp
  with assms len have "prefix sep ((c # a) @ butlast sep)"
    by (meson prefix_length_prefix)
  then show ?thesis by (rule prefix_imp_sublist)
qed

lemma split_sep_first:
  "sep \<noteq> [] \<Longrightarrow> \<not> sublist sep (a @ butlast sep) \<Longrightarrow>
   split_sep sep w (a @ sep @ rest) = (w @ a) # split_sep sep [] rest"
proof (induction a arbitrary: w)
  case Nil
  then show ?case by (simp add: split_sep_prefix)
next
  case (Cons c a)
  have np: "\<not> prefix sep (c # a @ sep @ rest)"
    using prefix_within [of sep c a rest] Cons.prems(2) by auto
  have ns: "\<not> sublist sep (a @ butlast sep)"
    using Cons.prems(2) by (auto simp: sublist_Cons_right)
  from Cons.IH [OF Cons.prems(1) ns, of "w @ [c]"] np show ?case
    by (simp add: split_sep_step)
qed

lemma split_sep_not_Nil: "split_sep sep w s \<noteq> []"
proof (induction sep w s rule: split_sep.induct)
  case (1 sep w s)
  show ?case
  proof (cases "sep \<noteq> [] \<and> prefix sep s")
    case True
    then show ?thesis by (subst split_sep.simps) simp
  next
    case False
    show ?thesis
    proof (cases s)
      case Nil
      then show ?thesis by (subst split_sep.simps) simp
    next
      case (Cons c cs)
      with False "1.IH"(2) [OF False Cons] show ?thesis
        by (subst split_sep.simps) auto
    qed
  qed
qed

lemma py_split_first:
  "sep \<noteq> [] \<Longrightarrow> \<not> sublist sep (a @ butlast sep) \<Longrightarrow>
   py_split sep (a @ sep @ rest) = a # py_split sep rest"
  by (simp add: py_split_def split_sep_first)

lemma py_split_no_occurrence:
  "sep \<noteq> [] \<Longrightarrow> \<not> sublist sep s \<Longrightarrow> py_split sep s = [s]"
  by (simp add: py_split_def split_sep_no_occurrence)

lemma not_sublist_prefix_part: "\<not> sublist sep (a @ b) \<Longrightarrow> \<not> sublist sep a"
  by (metis sublist_append)

lemma author_last_name_first_only:
  assumes "\<not> sublist '' and '' (a @ '' and'')"
  shows "author_last_name (a @ '' and '' @ rest) = Some (last_name_of (py_strip a))"
    and "author_last_name a = Some (last_name_of (py_strip a))"
proof -
  from assms have "\<not> sublist '' and '' (a @ butlast '' and '')" by simp
  then have 1: "py_split '' and '' (a @ '' and '' @ rest) = a # py_split '' and '' rest"
    by (intro py_split_first) simp
  from assms have "\<not> sublist '' and '' a" by (rule not_sublist_prefix_part)
  then have 2: "py_split '' and '' a = [a]"
    by (intro py_split_no_occurrence) simp_all
  from 1 show "author_last_name (a @ '' and '' @ rest) = Some (last_name_of (py_strip a))"
    by (simp add: author_last_name_def)
  from 2 show "author_last_name a = Some (last_name_of (py_strip a))"
    by (simp add: author_last_name_def)
qed

lemma comma_decompose:
  "c \<in> set s \<Longrightarrow> s = takeWhile (\<lambda>x. x \<noteq> c) s @ [c] @ tl (dropWhile (\<lambda>x. x \<noteq> c) s)"
  by (induction s) auto

lemma py_split_comma_present:
  assumes "c \<in> set s"
  shows "py_split [c] s = takeWhile (\<lambda>x. x \<noteq> c) s # py_split [c] (tl (dropWhile (\<lambda>x. x \<noteq> c) s))"
proof -
  let ?a = "takeWhile (\<lambda>x. x \<noteq> c) s"
  have "c \<notin> set ?a" by (auto dest: set_takeWhileD)
  then have "\<not> sublist [c] (?a @ butlast [c])"
    by (auto dest: set_mono_sublist)
  then have "py_split [c] (?a @ [c] @ tl (dropWhile (\<lambda>x. x \<noteq> c) s))
      = ?a # py_split [c] (tl (dropWhile (\<lambda>x. x \<noteq> c) s))"
    by (intro py_split_first) simp_all
  with comma_decompose [OF assms] show ?thesis by simp
qed

lemma py_split_comma_absent:
  assumes "c \<notin> set s"
  shows "py_split [c] s = [s]"
proof -
  from assms have "\<not> sublist [c] s" by (auto dest: set_mono_sublist)
  then show ?thesis by (intro py_split_no_occurrence) simp_all
qed

lemma py_split_not_Nil: "py_split sep s \<noteq> []"
  by (simp add: py_split_def split_sep_not_Nil)

lemma last_name_of_comma:
  assumes "CHR '','' \<in> set fa"
  shows "last_name_of fa = py_strip (takeWhile (\<lambda>c. c \<noteq> CHR '','') fa)"
proof -
  from py_split_comma_present [OF assms] py_split_not_Nil
  show ?thesis
    by (cases "py_split '','' (tl (dropWhile (\<lambda>x. x \<noteq> CHR '','') fa))")
       (simp_all add: last_name_of_def)
qed

lemma last_name_of_no_comma:
  assumes "CHR '','' \<notin> set fa"
  shows "last_name_of fa = (if py_split_ws fa = [] then [] else last (py_split_ws fa))"
  using py_split_comma_absent [OF assms] by (simp add: last_name_of_def Let_def)

lemma last_name_examples:
  "author_last_name ''Smith, John'' = Some ''Smith''"
  "author_last_name ''John Smith'' = Some ''Smith''"
  "author_last_name ''A and B and C'' = Some ''A''"
  "author_last_name ''A'' = Some ''A''"
  by code_simp+

text \<open>
  Claim C7. When the text up to the first \<^verbatim>\<open>' and '\<close> of the author field is \<open>a\<close>, the last
  name is taken from \<open>a\<close> alone, whatever follows. For a first author \<open>fa\<close> with a comma
  the last name is the text before the first comma, trimmed; without a comma it is the
  last of the whitespace-separated tokens (and empty when there is none). In particular
  \<^verbatim>\<open>Smith, John\<close> and \<^verbatim>\<open>John Smith\<close> both give \<^verbatim>\<open>Smith\<close>, and \<^verbatim>\<open>A and B and C\<close> gives what
  \<^verbatim>\<open>A\<close> gives. A last name that is not empty enters the query as \<^verbatim>\<open>author:"<last name>"\<close>.
\<close>

theorem author_last_name_extraction:
  "(\<not> sublist '' and '' (a @ '' and'') \<longrightarrow>
      author_last_name (a @ '' and '' @ rest) = author_last_name a
      \<and> author_last_name a = Some (last_name_of (py_strip a)))
   \<and> (CHR '','' \<in> set fa \<longrightarrow>
        last_name_of fa = py_strip (takeWhile (\<lambda>c. c \<noteq> CHR '','') fa))
   \<and> (CHR '','' \<notin> set fa \<longrightarrow>
        last_name_of fa = (if py_split_ws fa = [] then [] else last (py_split_ws fa)))
   \<and> author_last_name ''Smith, John'' = Some ''Smith''
   \<and> author_last_name ''John Smith'' = Some ''Smith''
   \<and> author_last_name ''A and B and C'' = author_last_name ''A''
   \<and> (entry ''author'' = Some au \<and> author_last_name au = Some l \<and> l \<noteq> [] \<longrightarrow>
        add_author entry parts = parts @ [''author:\"'' @ l @ ''\"''])"
  using author_last_name_first_only(1) [of a rest] author_last_name_first_only(2) [of a]
    last_name_of_comma [of fa] last_name_of_no_comma [of fa] last_name_examples
  by (simp add: add_author_def)

lemma last_name_witness_facts:
  "\<not> sublist '' and '' (''Jane Doe'' @ '' and'')"
  "py_strip ''Jane Doe'' = ''Jane Doe''"
  "CHR '','' \<in> set ''Smith, John''"
  "py_strip (takeWhile (\<lambda>c. c \<noteq> CHR '','') ''Smith, John'') = ''Smith''"
  "CHR '','' \<notin> set ''Jane Doe''"
  "py_split_ws ''Jane Doe'' = [''Jane'', ''Doe'']"
  by code_simp+

theorem author_last_name_extraction_witness:
  "\<not> sublist '' and '' (''Jane Doe'' @ '' and'')
   \<and> author_last_name (''Jane Doe'' @ '' and '' @ ''Smith, John and others'') = Some ''Doe''
   \<and> CHR '','' \<in> set ''Smith, John''
   \<and> last_name_of ''Smith, John'' = ''Smith''
   \<and> CHR '','' \<notin> set ''Jane Doe''
   \<and> last_name_of ''Jane Doe'' = ''Doe''
   \<and> [''author'' \<mapsto> ''Smith, John''] ''author'' = Some ''Smith, John''
   \<and> author_last_name ''Smith, John'' = Some ''Smith''
   \<and> add_author [''author'' \<mapsto> ''Smith, John''] [] = [''author:\"Smith\"'']"
proof -
  note f = last_name_witness_facts
  from author_last_name_extraction
    [where a = "''Jane Doe''" and rest = "''Smith, John and others''" and fa = "''Jane Doe''"
       and entry = "[''author'' \<mapsto> ''Smith, John'']" and au = "''Smith, John''"
       and l = "''Smith''" and parts = "[]"] f
  have 1: "author_last_name (''Jane Doe'' @ '' and '' @ ''Smith, John and others'') = Some ''Doe''"
    and 2: "last_name_of ''Jane Doe'' = ''Doe''"
    and 3: "author_last_name ''Smith, John'' = Some ''Smith''"
    and 4: "add_author [''author'' \<mapsto> ''Smith, John''] [] = [''author:\"Smith\"'']"
    by simp_all
  from author_last_name_extraction
    [where a = "''Jane Doe''" and rest = "''Smith, John and others''" and fa = "''Smith, John''"
       and entry = "[''author'' \<mapsto> ''Smith, John'']" and au = "''Smith, John''"
       and l = "''Smith''" and parts = "[]"] f
  have 5: "last_name_of ''Smith, John'' = ''Smith''"
    by simp
  from f 1 2 3 4 5 show ?thesis by simp
qed

subsection \<open>The normalisation of the title\<close>

lemma is_space_blank [simp]: "is_space CHR '' ''"
  by (simp add: is_space_def)

lemma collapse_ws_nonspace: "\<not> is_space c \<Longrightarrow> collapse_ws (c # cs) = c # collapse_ws cs"
  by (cases cs) simp_all

lemma collapse_ws_space:
  "is_space c \<Longrightarrow> collapse_ws (c # cs) = CHR '' '' # dropWhile is_space (collapse_ws cs)"
proof (induction cs arbitrary: c)
  case Nil
  then show ?case by simp
next
  case (Cons d ds)
  show ?case
  proof (cases "is_space d")
    case True
    with Cons.prems Cons.IH [OF True] show ?thesis by simp
  next
    case False
    with Cons.prems show ?thesis by (simp add: collapse_ws_nonspace)
  qed
qed

lemma trimR_snoc_nonspace: "\<not> is_space x \<Longrightarrow> trimR (t @ [x]) = t @ [x]"
  by simp

lemma trimR_nonspaces: "\<forall>c \<in> set w. \<not> is_space c \<Longrightarrow> trimR w = w"
  by (induction w rule: rev_induct) simp_all

lemma trimR_append: "trimR t \<noteq> [] \<Longrightarrow> trimR (u @ t) = u @ trimR t"
  by (auto simp: dropWhile_append)

lemma trimR_append_Nil: "trimR t = [] \<Longrightarrow> trimR (u @ t) = trimR u"
  by (auto simp: dropWhile_append)

lemma trimR_Cons_nonspace: "\<not> is_space x \<Longrightarrow> trimR (x # t) = x # trimR t"
  by (auto simp: dropWhile_append)

lemma split_ws_no_empty: "[] \<notin> set (split_ws w s)"
  by (induction s arbitrary: w) auto

lemma join_nonempty: "ws \<noteq> [] \<Longrightarrow> [] \<notin> set ws \<Longrightarrow> join sep ws \<noteq> []"
  by (induction sep ws rule: join.induct) auto

lemma join_Cons: "join sep (p # ps) = (if ps = [] then p else p @ sep @ join sep ps)"
  by (cases ps) simp_all

lemma join_split_ws:
  "\<forall>c \<in> set w. \<not> is_space c \<Longrightarrow>
   join '' '' (split_ws w s) =
     (if w = [] then trimR (dropWhile is_space (collapse_ws s)) else trimR (w @ collapse_ws s))"
proof (induction s arbitrary: w)
  case Nil
  then show ?case by (simp add: trimR_nonspaces)
next
  case (Cons c cs)
  show ?case
  proof (cases "is_space c")
    case False
    with Cons.prems have "\<forall>x \<in> set (w @ [c]). \<not> is_space x" by simp
    from Cons.IH [OF this] False show ?thesis
      by (simp add: collapse_ws_nonspace)
  next
    case True
    have ih: "join '' '' (split_ws [] cs) = trimR (dropWhile is_space (collapse_ws cs))"
      using Cons.IH [of "[]"] by simp
    let ?D = "dropWhile is_space (collapse_ws cs)"
    show ?thesis
    proof (cases "w = []")
      case True
      with \<open>is_space c\<close> ih show ?thesis by (simp add: collapse_ws_space)
    next
      case False
      have w: "trimR w = w" using Cons.prems by (rule trimR_nonspaces)
      show ?thesis
      proof (cases "split_ws [] cs = []")
        case True
        with ih have "trimR ?D = []" by simp
        then have "trimR (w @ CHR '' '' # ?D) = w"
          using trimR_append_Nil [of "CHR '' '' # ?D" w] w
          by (simp add: dropWhile_append split: if_splits)
        with True False \<open>is_space c\<close> show ?thesis
          by (simp add: collapse_ws_space)
      next
        case ne: False
        then have "join '' '' (split_ws [] cs) \<noteq> []"
          by (intro join_nonempty split_ws_no_empty)
        with ih have "trimR ?D \<noteq> []" by simp
        then have "trimR (CHR '' '' # ?D) = CHR '' '' # trimR ?D"
          using trimR_append [of ?D "'' ''"] by simp
        then have "trimR (w @ CHR '' '' # ?D) = w @ CHR '' '' # trimR ?D"
          using trimR_append [of "CHR '' '' # ?D" w] by simp
        with ne False \<open>is_space c\<close> ih show ?thesis
          by (simp add: collapse_ws_space join_Cons)
      qed
    qed
  qed
qed

lemma join_py_split_ws: "join '' '' (py_split_ws s) = py_strip (collapse_ws s)"
  using join_split_ws [of "[]" s] by (simp add: py_split_ws_def py_strip_def)

lemma dropWhile_trimR:
  "dropWhile is_space (trimR (dropWhile is_space s)) = trimR (dropWhile is_space s)"
proof (cases "dropWhile is_space s")
  case Nil
  show ?thesis unfolding Nil by simp
next
  case (Cons x t)
  then have "\<not> is_space x" using hd_dropWhile [of is_space s] by auto
  with Cons show ?thesis by (simp add: trimR_Cons_nonspace del: rev.simps)
qed

lemma py_strip_idem: "py_strip (py_strip s) = py_strip s"
proof -
  have "py_strip (py_strip s) = trimR (dropWhile is_space (trimR (dropWhile is_space s)))"
    by (simp add: py_strip_def)
  also have "\<dots> = trimR (trimR (dropWhile is_space s))"
    by (simp only: dropWhile_trimR)
  also have "\<dots> = trimR (dropWhile is_space s)"
    by simp
  finally show ?thesis by (simp add: py_strip_def)
qed

text \<open>
  Claim C6, as stated, fails on \<^verbatim>\<open>a_b-c\<close>: the specification's normalisation gives
  \<^verbatim>\<open>abc\<close>, while \<open>clean_text\<close> keeps the underscore, which is neither alphanumeric nor
  whitespace, and puts a space where the hyphen was.
\<close>

theorem clean_text_underscore_counterexample:
  "clean_text ''a_b-c'' = ''a_b c''
   \<and> spec_normalize ''a_b-c'' = ''abc''
   \<and> \<not> is_alnum CHR ''_'' \<and> \<not> is_space CHR ''_''"
  by code_simp

text \<open>
  Claim C6, amended. \<open>clean_text\<close> replaces every character that is neither
  alphanumeric, nor the underscore, nor whitespace by a space, then collapses the runs of
  whitespace to single spaces and trims both ends.
\<close>

theorem clean_text_normalises:
  "clean_text text =
     py_strip (collapse_ws
       (map (\<lambda>c. if is_alnum c \<or> c = CHR ''_'' \<or> is_space c then c else CHR '' '') text))"
proof (cases "text = []")
  case True
  then show ?thesis by (simp add: clean_text_def py_strip_def)
next
  case False
  then show ?thesis
    by (simp add: clean_text_def re_sub_special_def is_word_def join_py_split_ws py_strip_idem
        disj_ac)
qed

end
